theory Spec2Isabelle
  imports Main "HOL-Library.Sublist" "HOL-Library.AList"
begin

section \<open>Python values, strings and exceptions\<close>

text \<open>
  A Python \<open>str\<close> is a sequence of Unicode code points, so \<open>len\<close>, indexing, \<open>in\<close> and
  \<open>lower\<close> all work on code points. The model is a list of code points; \<open>asc\<close> embeds an
  ASCII literal, and text outside ASCII is written as its code points.
\<close>

type_synonym ustr = "nat list"

definition asc :: "string \<Rightarrow> ustr" where
  "asc s = map of_char s"

text \<open>
  The scalar values a text argument or an element of a text sequence can be: \<open>None\<close>, the
  float \<open>nan\<close> that pandas uses for a missing entry, booleans, integers and strings.
\<close>

datatype scalar = PyNone | PyNaN | PyBool bool | PyInt int | PyStr ustr

text \<open>
  A cell of a data frame: a missing value \<open>NaN\<close>, the null date-time \<open>NaT\<close>, a string, an
  integer, or a pandas \<open>Timestamp\<close> (nanoseconds since the epoch). A data frame is its
  columns in order, each with its name and its cells.
\<close>

datatype cell = NaN | NaT | Str ustr | Num int | Timestamp int

type_synonym dataframe = "(ustr \<times> cell list) list"

datatype pyval =
    Scalar scalar
  | PyList "scalar list"
  | PySeries "scalar list"
  | PyDataFrame dataframe

text \<open>
  Exceptions are values: the class and \<open>str(e)\<close>. The classes are the subclasses of
  \<open>Exception\<close> that the two modules name or that their library calls raise; \<open>base\<close> is the
  direct superclass (pandas declares \<open>ParserError\<close> and \<open>EmptyDataError\<close> as subclasses of
  \<open>ValueError\<close>; \<open>KeyError\<close> and \<open>IndexError\<close> are \<open>LookupError\<close>s). The hierarchy is
  two levels deep below \<open>Exception\<close>, so \<open>issubclass\<close> looks at the class, its base and
  \<open>Exception\<close>. \<open>ResampleError\<close> is the class that one handler names.
\<close>

datatype exn_class =
    Exception | TypeError | ValueError | ParserError | EmptyDataError | UnicodeError
  | LookupError | KeyError | IndexError | OSError | FileNotFoundError
  | AttributeError | RuntimeError | ResampleError

datatype exn = Exn (exn_class: exn_class) (exn_str: ustr)

fun base :: "exn_class \<Rightarrow> exn_class" where
  "base ParserError = ValueError"
| "base EmptyDataError = ValueError"
| "base UnicodeError = ValueError"
| "base KeyError = LookupError"
| "base IndexError = LookupError"
| "base FileNotFoundError = OSError"
| "base c = Exception"

definition issubclass :: "exn_class \<Rightarrow> exn_class \<Rightarrow> bool" where
  "issubclass c d \<longleftrightarrow> c = d \<or> base c = d \<or> d = Exception"

definition isinstance :: "exn \<Rightarrow> exn_class \<Rightarrow> bool" where
  "isinstance e d \<longleftrightarrow> issubclass (exn_class e) d"

text \<open>
  The library functions of the text code, taken as parameters: \<open>str.lower\<close> (Unicode case
  mapping of a whole string), the character classes behind \<open>str.isdigit\<close> and the regular
  expression class \<open>\w\<close>, the MeCab tagger (its construction may fail; \<open>parse\<close> maps a text
  to the tokens joined by blanks) and the NLTK call \<open>stopwords.words("japanese")\<close>.
\<close>

record text_libs =
  str_lower :: "ustr \<Rightarrow> ustr"
  uni_isdigit :: "nat \<Rightarrow> bool"
  uni_isalnum :: "nat \<Rightarrow> bool"
  mecab_Tagger :: "exn + (ustr \<Rightarrow> exn + ustr)"
  stopwords_words :: "exn + ustr list"

section \<open>data_logger.py: the classifier\<close>

text \<open>
  The constants of the module, in the order of the source. The last nine keywords are
  its Japanese terms, and the two categories are its two Japanese labels.
\<close>

definition REQUIRED_COLUMNS :: "ustr list" where
  "REQUIRED_COLUMNS =
    [asc ''tweeted_at'',
     asc ''screen_name'',
     asc ''full_text'']"

definition TECH_KEYWORDS :: "ustr list" where
  "TECH_KEYWORDS =
    [asc ''python'',
     asc ''javascript'',
     asc ''programming'',
     asc ''code'',
     asc ''developer'',
     asc ''tech'',
     asc ''cybersecurity'',
     asc ''security'',
     asc ''it'',
     asc ''software'',
     asc ''web'',
     asc ''api'',
     asc ''data'',
     asc ''github'',
     asc ''docker'',
     asc ''cloud'',
     asc ''ai'',
     asc ''ml'',
     asc ''database'',
     asc ''dev'',
     asc ''coding'',
     [12503, 12525, 12464, 12521, 12511, 12531, 12464],
     [12456, 12531, 12472, 12491, 12450],
     [12467, 12540, 12489],
     [12475, 12461, 12517, 12522, 12486, 12451],
     [27231, 26800, 23398, 32722],
     [12463, 12521, 12454, 12489],
     [12463, 12521, 12454, 12489, 12467, 12531, 12500, 12517, 12540, 12486, 12451, 12531, 12464],
     [12461, 12515, 12522, 12450],
     [12475, 12461, 12517, 12522, 12486, 12451, 23550, 31574]]"

definition CAT_TECH :: ustr where
  "CAT_TECH = [12486, 12463, 12494, 12525, 12472, 12540]"

definition CAT_OTHER :: ustr where
  "CAT_OTHER = [12381, 12398, 20182]"

text \<open>\<open>pd.isna\<close> and \<open>pd.notna\<close> on a scalar.\<close>

fun pd_isna :: "scalar \<Rightarrow> bool" where
  "pd_isna PyNone = True"
| "pd_isna PyNaN = True"
| "pd_isna _ = False"

definition pd_notna :: "scalar \<Rightarrow> bool" where
  "pd_notna v \<longleftrightarrow> \<not> pd_isna v"

text \<open>\<open>type(v).__name__\<close>, for the message of an \<open>AttributeError\<close>.\<close>

fun type_name :: "pyval \<Rightarrow> ustr" where
  "type_name (Scalar PyNone) = asc ''NoneType''"
| "type_name (Scalar PyNaN) = asc ''float''"
| "type_name (Scalar (PyBool _)) = asc ''bool''"
| "type_name (Scalar (PyInt _)) = asc ''int''"
| "type_name (Scalar (PyStr _)) = asc ''str''"
| "type_name (PyList _) = asc ''list''"
| "type_name (PySeries _) = asc ''Series''"
| "type_name (PyDataFrame _) = asc ''DataFrame''"

text \<open>
  \<open>text.lower()\<close>: only a \<open>str\<close> has the method; on any other value the attribute lookup
  raises \<open>AttributeError\<close>.
\<close>

definition py_lower :: "text_libs \<Rightarrow> pyval \<Rightarrow> exn + ustr" where
  "py_lower L v =
     (case v of
        Scalar (PyStr s) \<Rightarrow> Inr (str_lower L s)
      | _ \<Rightarrow> Inl (Exn AttributeError
                 ([39] @ type_name v @ [39] @ asc '' object has no attribute '' @ [39]
                  @ asc ''lower'' @ [39])))"

text \<open>
  \<open>categorize_tech\<close>: the \<open>isinstance\<close> guard, the \<open>pd.isna\<close> guard, then
  \<open>any(keyword in text_lower for keyword in TECH_KEYWORDS)\<close>, where \<open>in\<close> on strings is
  the contiguous-substring test \<open>sublist\<close>.
\<close>

definition isinstance_str :: "pyval \<Rightarrow> bool" where
  "isinstance_str v = (case v of Scalar (PyStr _) \<Rightarrow> True | _ \<Rightarrow> False)"

definition categorize_tech :: "text_libs \<Rightarrow> pyval \<Rightarrow> exn + ustr" where
  "categorize_tech L text =
     (if \<not> isinstance_str text then Inr CAT_OTHER
      else if (case text of Scalar s \<Rightarrow> pd_isna s | _ \<Rightarrow> False) then Inr CAT_OTHER
      else (case py_lower L text of
              Inl e \<Rightarrow> Inl e
            | Inr text_lower \<Rightarrow>
                Inr (if list_ex (\<lambda>keyword. sublist keyword text_lower) TECH_KEYWORDS
                     then CAT_TECH else CAT_OTHER)))"


section \<open>data_logger.py: the loader\<close>

text \<open>Running one step after another, where an exception of the first ends the block.\<close>

definition bindE :: "'e + 'a \<Rightarrow> ('a \<Rightarrow> 'e + 'b) \<Rightarrow> 'e + 'b" where
  "bindE m f = (case m of Inl e \<Rightarrow> Inl e | Inr x \<Rightarrow> f x)"

text \<open>
  The pandas calls of \<open>load_data\<close>, taken as parameters: \<open>pd.read_csv(path, nrows=0)\<close>
  gives the column names of the header, \<open>pd.read_csv(path, on_bad_lines='error',
  delimiter=',')\<close> the whole table, \<open>pd.to_datetime\<close> converts one column and returns a
  column over the same rows.
\<close>

record csv_libs =
  read_csv_header :: "ustr \<Rightarrow> exn + ustr list"
  read_csv :: "ustr \<Rightarrow> exn + dataframe"
  to_datetime :: "cell list \<Rightarrow> exn + cell list"

text \<open>What \<open>load_data\<close> reads, in order: each call of \<open>pd.read_csv\<close> is one event.\<close>

datatype io_event = ReadHeader ustr | ReadFull ustr

definition MSG_missing_required :: ustr where
  "MSG_missing_required = [24517, 38920, 12459, 12521, 12512, 12364, 19981, 36275, 12375, 12390, 12356, 12414, 12377] @ asc '': ''"

definition MSG_datetime_failed :: ustr where
  "MSG_datetime_failed = [26085, 26178, 12487, 12540, 12479, 12398, 22793, 25563, 12395, 22833, 25943, 12375, 12414, 12375, 12383] @ asc '': ''"

text \<open>\<open>sep.join(items)\<close>.\<close>

fun py_join :: "ustr \<Rightarrow> ustr list \<Rightarrow> ustr" where
  "py_join sep [] = []"
| "py_join sep [x] = x"
| "py_join sep (x # y # ys) = x @ sep @ py_join sep (y # ys)"

text \<open>
  The first \<open>try\<close> block: read the header, list the required columns it lacks, raise
  \<open>ParserError\<close> if there are any. Its handlers re-raise \<open>EmptyDataError\<close>, \<open>ParserError\<close>
  and \<open>FileNotFoundError\<close>, and turn any other exception into a \<open>ParserError\<close> with the
  same text.
\<close>

definition header_body :: "csv_libs \<Rightarrow> ustr \<Rightarrow> exn + unit" where
  "header_body P file_path =
     bindE (read_csv_header P file_path) (\<lambda>columns.
       let missing_columns = filter (\<lambda>col. col \<notin> set columns) REQUIRED_COLUMNS
       in if missing_columns \<noteq> []
          then Inl (Exn ParserError (MSG_missing_required @ py_join (asc '', '') missing_columns))
          else Inr ())"

definition header_handler :: "exn \<Rightarrow> exn" where
  "header_handler e =
     (if isinstance e EmptyDataError then e
      else if isinstance e ParserError then e
      else if isinstance e FileNotFoundError then e
      else Exn ParserError (exn_str e))"

definition check_header :: "csv_libs \<Rightarrow> ustr \<Rightarrow> exn + unit" where
  "check_header P file_path =
     (case header_body P file_path of Inl e \<Rightarrow> Inl (header_handler e) | Inr u \<Rightarrow> Inr u)"

text \<open>
  The third \<open>try\<close> block: \<open>bookmark_df["tweeted_at"]\<close> raises \<open>KeyError\<close> for a missing
  column, \<open>pd.to_datetime\<close> converts the column, the assignment stores the result in
  the place of the old column. Every exception becomes a \<open>ValueError\<close>.
\<close>

definition getitem :: "dataframe \<Rightarrow> ustr \<Rightarrow> exn + cell list" where
  "getitem df name =
     (case map_of df name of
        None \<Rightarrow> Inl (Exn KeyError ([39] @ name @ [39]))
      | Some col \<Rightarrow> Inr col)"

definition convert_body :: "csv_libs \<Rightarrow> dataframe \<Rightarrow> exn + dataframe" where
  "convert_body P bookmark_df =
     bindE (getitem bookmark_df (asc ''tweeted_at'')) (\<lambda>col.
       bindE (to_datetime P col) (\<lambda>converted.
         Inr (AList.update (asc ''tweeted_at'') converted bookmark_df)))"

definition convert_timestamps :: "csv_libs \<Rightarrow> dataframe \<Rightarrow> exn + dataframe" where
  "convert_timestamps P bookmark_df =
     (case convert_body P bookmark_df of
        Inl e \<Rightarrow> Inl (Exn ValueError (MSG_datetime_failed @ exn_str e))
      | Inr df \<Rightarrow> Inr df)"

text \<open>
  \<open>load_data\<close>: the header check, then the full read (whose handlers all re-raise), then
  the conversion. The first component is what was read.
\<close>

definition load_data :: "csv_libs \<Rightarrow> ustr \<Rightarrow> io_event list \<times> (exn + dataframe)" where
  "load_data P file_path =
     (case check_header P file_path of
        Inl e \<Rightarrow> ([ReadHeader file_path], Inl e)
      | Inr _ \<Rightarrow>
          (case read_csv P file_path of
             Inl e \<Rightarrow> ([ReadHeader file_path, ReadFull file_path], Inl e)
           | Inr bookmark_df \<Rightarrow>
               ([ReadHeader file_path, ReadFull file_path],
                convert_timestamps P bookmark_df)))"

text \<open>A cell of a date-time column: a \<open>Timestamp\<close>, or the null date-time \<open>NaT\<close>.\<close>

definition is_datetime :: "cell \<Rightarrow> bool" where
  "is_datetime c = (case c of NaT \<Rightarrow> True | Timestamp _ \<Rightarrow> True | _ \<Rightarrow> False)"

text \<open>
  What pandas documents of \<open>pd.to_datetime\<close> on a column: the result has the rows of
  the argument and the date-time type.
\<close>

definition datetime_conversion :: "(cell list \<Rightarrow> exn + cell list) \<Rightarrow> bool" where
  "datetime_conversion conv \<longleftrightarrow>
     (\<forall>col out. conv col = Inr out \<longrightarrow> length out = length col \<and> list_all is_datetime out)"

text \<open>
  An instance of the conversion for examples: a missing cell becomes \<open>NaT\<close>, as pandas
  converts it, a date-time stays, an integer counts nanoseconds, a string goes through
  the given parser; the first string that does not parse raises.
\<close>

fun convert_cell :: "(ustr \<Rightarrow> exn + cell) \<Rightarrow> cell \<Rightarrow> exn + cell" where
  "convert_cell parse NaN = Inr NaT"
| "convert_cell parse NaT = Inr NaT"
| "convert_cell parse (Timestamp t) = Inr (Timestamp t)"
| "convert_cell parse (Num i) = Inr (Timestamp i)"
| "convert_cell parse (Str s) = parse s"

fun to_datetime_with :: "(ustr \<Rightarrow> exn + cell) \<Rightarrow> cell list \<Rightarrow> exn + cell list" where
  "to_datetime_with parse [] = Inr []"
| "to_datetime_with parse (c # cs) =
     bindE (convert_cell parse c) (\<lambda>d.
       bindE (to_datetime_with parse cs) (\<lambda>ds. Inr (d # ds)))"

definition parse_table :: "(ustr \<times> int) list \<Rightarrow> ustr \<Rightarrow> exn + cell" where
  "parse_table tbl s =
     (case map_of tbl s of
        Some t \<Rightarrow> Inr (Timestamp t)
      | None \<Rightarrow> Inl (Exn ValueError (asc ''Unknown datetime string format, unable to parse: '' @ s)))"

text \<open>
  An example resource: the header has the three required columns and the second row
  has an empty \<open>tweeted_at\<close> field, which \<open>read_csv\<close> gives as \<open>NaN\<close>.
\<close>

definition example_table :: dataframe where
  "example_table =
     [(asc ''tweeted_at'', [Str (asc ''2023-01-01 12:00:00''), NaN]),
      (asc ''screen_name'', [Str (asc ''user1''), Str (asc ''user2'')]),
      (asc ''full_text'', [Str (asc ''hello''), Str (asc ''world'')])]"

definition example_csv :: csv_libs where
  "example_csv =
     \<lparr>read_csv_header = (\<lambda>p. Inr [asc ''tweeted_at'', asc ''screen_name'', asc ''full_text'']),
      read_csv = (\<lambda>p. Inr example_table),
      to_datetime = to_datetime_with (parse_table [(asc ''2023-01-01 12:00:00'', 1672574400000000000)])\<rparr>"


section \<open>visualizations.py: the frequent words\<close>

definition MSG_not_list :: ustr where
  "MSG_not_list = [20837, 21147, 12399, 12522, 12473, 12488, 12414, 12383, 12399] @ asc ''Series'' @ [12391, 12354, 12427, 24517, 35201, 12364, 12354, 12426, 12414, 12377]"

definition MSG_empty_input :: ustr where
  "MSG_empty_input = [20837, 21147, 12486, 12461, 12473, 12488, 12364, 31354, 12391, 12377]"

definition MSG_no_valid_text :: ustr where
  "MSG_no_valid_text = [26377, 21177, 12394, 12486, 12461, 12473, 12488, 12364, 23384, 22312, 12375, 12414, 12379, 12435]"

definition MSG_unexpected :: ustr where
  "MSG_unexpected = [20104, 26399, 12379, 12396, 12456, 12521, 12540, 12364, 30330, 29983, 12375, 12414, 12375, 12383] @ asc '': ''"

text \<open>
  White space as \<open>str.isspace\<close>, \<open>str.strip\<close>, \<open>str.split\<close> and the regular expression
  class \<open>\s\<close> see it: the ASCII controls 9 to 13 and 28 to 31, the blank, and the Unicode
  separators.
\<close>

definition py_isspace :: "nat \<Rightarrow> bool" where
  "py_isspace c \<longleftrightarrow>
     (9 \<le> c \<and> c \<le> 13) \<or> (28 \<le> c \<and> c \<le> 32) \<or> c = 133 \<or> c = 160 \<or> c = 5760
     \<or> (8192 \<le> c \<and> c \<le> 8202) \<or> c = 8232 \<or> c = 8233 \<or> c = 8239 \<or> c = 8287
     \<or> c = 12288"

definition py_strip :: "ustr \<Rightarrow> ustr" where
  "py_strip s = rev (dropWhile py_isspace (rev (dropWhile py_isspace s)))"

text \<open>\<open>s.split()\<close>: the maximal runs of characters that are not white space.\<close>

fun split_acc :: "ustr \<Rightarrow> ustr \<Rightarrow> ustr list" where
  "split_acc cur [] = (if cur = [] then [] else [cur])"
| "split_acc cur (c # cs) =
     (if py_isspace c
      then (if cur = [] then split_acc [] cs else cur # split_acc [] cs)
      else split_acc (cur @ [c]) cs)"

definition py_split :: "ustr \<Rightarrow> ustr list" where
  "py_split s = split_acc [] s"

text \<open>\<open>str(v)\<close> of a scalar; an integer prints in decimal.\<close>

fun digits :: "nat \<Rightarrow> ustr" where
  "digits n = (if n < 10 then [48 + n] else digits (n div 10) @ [48 + n mod 10])"

declare digits.simps [simp del]

definition str_of_int :: "int \<Rightarrow> ustr" where
  "str_of_int i = (if i < 0 then 45 # digits (nat (- i)) else digits (nat i))"

fun py_str :: "scalar \<Rightarrow> ustr" where
  "py_str PyNone = asc ''None''"
| "py_str PyNaN = asc ''nan''"
| "py_str (PyBool b) = (if b then asc ''True'' else asc ''False'')"
| "py_str (PyInt i) = str_of_int i"
| "py_str (PyStr s) = s"

text \<open>
  \<open>_validate_input\<close>: a \<open>TypeError\<close> unless the argument is a list or a Series, a
  \<open>ValueError\<close> if it has no element. The model returns the elements, which the source
  goes on to iterate over.
\<close>

definition validate_input :: "pyval \<Rightarrow> exn + scalar list" where
  "validate_input texts =
     (case texts of
        PyList xs \<Rightarrow> if length xs = 0 then Inl (Exn ValueError MSG_empty_input) else Inr xs
      | PySeries xs \<Rightarrow> if length xs = 0 then Inl (Exn ValueError MSG_empty_input) else Inr xs
      | _ \<Rightarrow> Inl (Exn TypeError MSG_not_list))"

text \<open>\<open>" ".join(str(text) for text in texts if pd.notna(text))\<close>.\<close>

definition join_texts :: "scalar list \<Rightarrow> ustr" where
  "join_texts xs = py_join (asc '' '') (map py_str (filter pd_notna xs))"

text \<open>
  \<open>_preprocess_text\<close>. The first substitution deletes every match of
  \<open>http\S+|www.\S+\<close>, found from left to right: \<open>match_url s\<close> is the rest of \<open>s\<close> after a
  match at its start. \<open>\S+\<close> takes the longest run of characters that are not white
  space, at least one; \<open>.\<close> is any character but the newline. The second substitution
  deletes every character outside \<open>\w\<close> (alphanumeric or the underscore) and \<open>\s\<close>.
\<close>

definition strip_prefix :: "ustr \<Rightarrow> ustr \<Rightarrow> ustr option" where
  "strip_prefix p s = (if prefix p s then Some (drop (length p) s) else None)"

definition match_nonspace_run :: "ustr \<Rightarrow> ustr option" where
  "match_nonspace_run s =
     (case s of
        [] \<Rightarrow> None
      | c # cs \<Rightarrow> if py_isspace c then None else Some (dropWhile (\<lambda>d. \<not> py_isspace d) cs))"

definition match_url :: "ustr \<Rightarrow> ustr option" where
  "match_url s =
     (case (case strip_prefix (asc ''http'') s of
              Some r \<Rightarrow> match_nonspace_run r
            | None \<Rightarrow> None) of
        Some r \<Rightarrow> Some r
      | None \<Rightarrow>
          (case strip_prefix (asc ''www'') s of
             Some (c # r) \<Rightarrow> if c = 10 then None else match_nonspace_run r
           | _ \<Rightarrow> None))"

function sub_urls :: "ustr \<Rightarrow> ustr" where
  "sub_urls [] = []"
| "sub_urls (c # cs) =
     (case match_url (c # cs) of
        Some r \<Rightarrow> sub_urls r
      | None \<Rightarrow> c # sub_urls cs)"
  by pat_completeness auto
termination
proof (relation "measure length")
  show "wf (measure length)" by simp
next
  fix c :: nat and cs r :: ustr
  assume m: "match_url (c # cs) = Some r"
  have run: "length b < length a" if "match_nonspace_run a = Some b" for a b
  proof (cases a)
    case Nil
    with that show ?thesis by (simp add: match_nonspace_run_def)
  next
    case (Cons d ds)
    with that have "b = dropWhile (\<lambda>d. \<not> py_isspace d) ds"
      by (simp add: match_nonspace_run_def split: if_splits)
    then have "length b \<le> length ds" by (simp add: length_dropWhile_le)
    with Cons show ?thesis by simp
  qed
  have pre: "length b \<le> length a" if "strip_prefix p a = Some b" for p a b
    using that by (auto simp: strip_prefix_def split: if_splits)
  have "length r < length (c # cs)"
  proof (cases "case strip_prefix (asc ''http'') (c # cs) of
                  Some r \<Rightarrow> match_nonspace_run r | None \<Rightarrow> None")
    case (Some r')
    with m have r: "r' = r" by (simp add: match_url_def)
    from Some obtain q where q: "strip_prefix (asc ''http'') (c # cs) = Some q"
      and "match_nonspace_run q = Some r'"
      by (auto split: option.splits)
    with run pre r show ?thesis by fastforce
  next
    case None
    with m obtain d q where q: "strip_prefix (asc ''www'') (c # cs) = Some (d # q)"
      and "match_nonspace_run q = Some r"
      by (auto simp: match_url_def split: option.splits list.splits if_splits)
    with run [of q r] pre [of "asc ''www''" "c # cs" "d # q"] show ?thesis by simp
  qed
  then show "(r, c # cs) \<in> measure length" by simp
next
  fix c :: nat and cs :: ustr
  show "(cs, c # cs) \<in> measure length" by simp
qed

definition is_word_char :: "text_libs \<Rightarrow> nat \<Rightarrow> bool" where
  "is_word_char L c \<longleftrightarrow> uni_isalnum L c \<or> c = 95"

definition preprocess_text :: "text_libs \<Rightarrow> ustr \<Rightarrow> ustr" where
  "preprocess_text L text = filter (\<lambda>c. is_word_char L c \<or> py_isspace c) (sub_urls text)"

text \<open>
  The tokenising loop: every text that is not null is cleaned, parsed by the tagger and
  split at white space; the words are collected in order. An exception of the tagger
  ends the loop.
\<close>

fun collect_words :: "text_libs \<Rightarrow> (ustr \<Rightarrow> exn + ustr) \<Rightarrow> scalar list \<Rightarrow> exn + ustr list" where
  "collect_words L parse [] = Inr []"
| "collect_words L parse (text # texts) =
     (if pd_notna text
      then bindE (parse (preprocess_text L (py_str text))) (\<lambda>parsed.
             bindE (collect_words L parse texts) (\<lambda>words. Inr (py_split parsed @ words)))
      else collect_words L parse texts)"

text \<open>
  The stop words, as the list of the members of the set: the NLTK list, or nothing
  when the call raises \<open>LookupError\<close>, then the fixed supplement.
\<close>

definition supplement :: "ustr list" where
  "supplement =
    [asc ''RT'',
     asc ''http'',
     asc ''https'',
     asc ''co'',
     asc ''jp'',
     asc ''com'',
     asc ''www'',
     asc ''amp'',
     asc ''...'',
     [8230],
     [65281],
     [65311],
     [31505],
     asc ''w'',
     [65367],
     [9834],
     [65306],
     [65307],
     [12377, 12427],
     [12356, 12427],
     [12394, 12427],
     [12354, 12427],
     [12428, 12427],
     [12398],
     [12364],
     [12395],
     [12434],
     [12399],
     [12383],
     [12391, 12377],
     [12414, 12377],
     [12394, 12356],
     [12384],
     [12387, 12390],
     [12390],
     [12392],
     [12418],
     [12394]]"

definition load_stop_words :: "text_libs \<Rightarrow> exn + ustr list" where
  "load_stop_words L =
     (case stopwords_words L of
        Inr base_words \<Rightarrow> Inr (base_words @ supplement)
      | Inl e \<Rightarrow> if isinstance e LookupError then Inr ([] @ supplement) else Inl e)"

text \<open>The technology vocabulary, as the list of the members of the set.\<close>

definition tech_words :: "ustr list" where
  "tech_words =
    [asc ''AWS'',
     asc ''Azure'',
     asc ''GCP'',
     asc ''Kubernetes'',
     asc ''Docker'',
     asc ''DevOps'',
     asc ''CI/CD'',
     [12510, 12452, 12463, 12525, 12469, 12540, 12499, 12473],
     [12467, 12531, 12486, 12490],
     [12469, 12540, 12496, 12540, 12524, 12473],
     [12452, 12531, 12501, 12521],
     [12463, 12521, 12454, 12489],
     [12501, 12525, 12531, 12488, 12456, 12531, 12489],
     [12496, 12483, 12463, 12456, 12531, 12489],
     [12501, 12523, 12473, 12479, 12483, 12463],
     [12487, 12540, 12479, 12505, 12540, 12473],
     asc ''SQL'',
     asc ''NoSQL'',
     asc ''API'',
     asc ''REST'',
     asc ''GraphQL'',
     asc ''WebSocket'',
     asc ''HTTP'',
     asc ''HTTPS'',
     asc ''SSL'',
     asc ''TLS'',
     [12475, 12461, 12517, 12522, 12486, 12451],
     [35469, 35388],
     [35469, 21487],
     [26263, 21495, 21270],
     [12495, 12483, 12471, 12517],
     [12450, 12523, 12468, 12522, 12474, 12512],
     [27231, 26800, 23398, 32722],
     [12487, 12451, 12540, 12503, 12521, 12540, 12491, 12531, 12464],
     asc ''AI'',
     [20154, 24037, 30693, 33021],
     [12491, 12517, 12540, 12521, 12523],
     [12487, 12540, 12479, 12469, 12452, 12456, 12531, 12473],
     [12499, 12483, 12464, 12487, 12540, 12479],
     [20998, 25955, 20966, 29702],
     [20006, 21015, 20966, 29702],
     [12473, 12465, 12540, 12521, 12499, 12522, 12486, 12451],
     [21487, 29992, 24615],
     [20449, 38972, 24615],
     [12514, 12491, 12479, 12522, 12531, 12464],
     [12525, 12462, 12531, 12464],
     [12487, 12496, 12483, 12464],
     [12486, 12473, 12488],
     asc ''CI'',
     asc ''CD'',
     asc ''Git'',
     asc ''GitHub'',
     asc ''GitLab'',
     asc ''BitBucket'',
     [12450, 12472, 12515, 12452, 12523],
     [12473, 12463, 12521, 12512],
     [12459, 12531, 12496, 12531],
     [12524, 12460, 12471, 12540],
     [12522, 12501, 12449, 12463, 12479, 12522, 12531, 12464],
     [12463, 12522, 12540, 12531, 12467, 12540, 12489],
     [12487, 12470, 12452, 12531, 12497, 12479, 12540, 12531],
     [12450, 12540, 12461, 12486, 12463, 12481, 12515],
     [12514, 12494, 12522, 12473],
     [12469, 12540, 12499, 12473, 12513, 12483, 12471, 12517],
     asc ''Istio'',
     asc ''Envoy'',
     asc ''Prometheus'',
     asc ''Grafana'',
     asc ''ELK'',
     asc ''Elasticsearch'',
     [12502, 12525, 12483, 12463, 12481, 12455, 12540, 12531],
     [12473, 12510, 12540, 12488, 12467, 12531, 12488, 12521, 12463, 12488],
     asc ''Web3'',
     asc ''NFT'',
     [12513, 12479, 12496, 12540, 12473],
     asc ''AR'',
     asc ''VR'',
     asc ''IoT'',
     asc ''5G'',
     asc ''6G'',
     [12456, 12483, 12472, 12467, 12531, 12500, 12517, 12540, 12486, 12451, 12531, 12464],
     [12501, 12457, 12464, 12467, 12531, 12500, 12517, 12540, 12486, 12451, 12531, 12464],
     [12510, 12523, 12481, 12463, 12521, 12454, 12489],
     [12495, 12452, 12502, 12522, 12483, 12489, 12463, 12521, 12454, 12489],
     asc ''SaaS'',
     asc ''PaaS'',
     asc ''IaaS'',
     asc ''FaaS'',
     asc ''BaaS'',
     asc ''DaaS'',
     asc ''XaaS'',
     [12458, 12540, 12488, 12513, 12540, 12471, 12519, 12531],
     asc ''RPA'',
     [12525, 12540, 12467, 12540, 12489],
     [12494, 12540, 12467, 12540, 12489],
     asc ''PWA'',
     asc ''SPA'',
     asc ''SSR'',
     asc ''CSR'',
     asc ''JAMstack'',
     asc ''WebAssembly'',
     asc ''WASM'',
     asc ''Rust'',
     asc ''Go'',
     asc ''Python'',
     asc ''JavaScript'',
     asc ''TypeScript'',
     asc ''React'',
     asc ''Vue'',
     asc ''Angular'',
     asc ''Svelte'',
     asc ''Next.js'',
     asc ''Nuxt.js'',
     asc ''Node.js'',
     asc ''Deno'',
     asc ''Django'',
     asc ''Flask'',
     asc ''FastAPI'',
     asc ''Spring'',
     asc ''Rails'',
     asc ''Laravel'',
     asc ''PHP'',
     asc ''Java'',
     asc ''Kotlin'',
     asc ''Swift'',
     asc ''Flutter'',
     asc ''React Native'',
     asc ''Xamarin'',
     asc ''Unity'',
     asc ''Unreal Engine'',
     asc ''Clojure'',
     asc ''Elixir'',
     asc ''Scala'',
     asc ''Common Lisp'',
     asc ''Erlang'',
     asc ''python'',
     asc ''javascript'',
     asc ''programming'',
     asc ''code'',
     asc ''developer'',
     asc ''tech'',
     asc ''cybersecurity'',
     asc ''security'',
     asc ''IT'',
     asc ''software'',
     asc ''web'',
     asc ''api'',
     asc ''data'',
     asc ''github'',
     asc ''docker'',
     asc ''cloud'',
     asc ''ML'',
     asc ''database'',
     asc ''dev'',
     asc ''coding'',
     [12503, 12525, 12464, 12521, 12511, 12531, 12464],
     [12456, 12531, 12472, 12491, 12450],
     [12467, 12540, 12489]]"

text \<open>The two filters of the counting step.\<close>

definition py_isdigit :: "text_libs \<Rightarrow> ustr \<Rightarrow> bool" where
  "py_isdigit L word \<longleftrightarrow> word \<noteq> [] \<and> list_all (uni_isdigit L) word"

definition all_ascii :: "ustr \<Rightarrow> bool" where
  "all_ascii word = list_all (\<lambda>c. c < 128) word"

definition keep_tech :: "text_libs \<Rightarrow> ustr \<Rightarrow> bool" where
  "keep_tech L word \<longleftrightarrow> word \<in> set tech_words \<and> length word > 1 \<and> \<not> py_isdigit L word"

definition keep_general :: "text_libs \<Rightarrow> ustr list \<Rightarrow> ustr \<Rightarrow> bool" where
  "keep_general L stop_words word \<longleftrightarrow>
     str_lower L word \<notin> set stop_words \<and> length word > 1 \<and> \<not> py_isdigit L word
     \<and> \<not> all_ascii word"

text \<open>
  \<open>Counter(words)\<close> is a dict, which keeps its keys in the order of their first
  insertion: an association list with one entry for each word. \<open>most_common(n)\<close> is
  \<open>heapq.nlargest(n, items, key=count)\<close>, the first \<open>n\<close> items of the stable sort by
  descending count, and no item for \<open>n \<le> 0\<close>. \<open>dict\<close> of that list keeps its order.
\<close>

definition count_word :: "(ustr \<times> nat) list \<Rightarrow> ustr \<Rightarrow> (ustr \<times> nat) list" where
  "count_word counts w =
     AList.update w (case map_of counts w of None \<Rightarrow> 1 | Some k \<Rightarrow> k + 1) counts"

definition Counter :: "ustr list \<Rightarrow> (ustr \<times> nat) list" where
  "Counter words = foldl count_word [] words"

definition most_common :: "int \<Rightarrow> (ustr \<times> nat) list \<Rightarrow> (ustr \<times> nat) list" where
  "most_common n counts = take (nat n) (sort_key (\<lambda>item. - int (snd item)) counts)"

text \<open>
  The body of the \<open>try\<close> block of \<open>get_top_words\<close>, in the order of the source:
  validation, the test for usable text on the joined texts, the tagger and the loop, the
  stop words, the filter, the count. (The source also cleans the joined text, a value
  that it does not use afterwards.) The handlers re-raise \<open>TypeError\<close> and
  \<open>ValueError\<close> and wrap any other exception in a \<open>ValueError\<close>.
\<close>

definition top_words_body :: "text_libs \<Rightarrow> pyval \<Rightarrow> int \<Rightarrow> bool \<Rightarrow> exn + (ustr \<times> nat) list" where
  "top_words_body L texts n tech_only =
     bindE (validate_input texts) (\<lambda>xs.
       if py_strip (join_texts xs) = [] then Inl (Exn ValueError MSG_no_valid_text)
       else
         bindE (mecab_Tagger L) (\<lambda>parse.
           bindE (collect_words L parse xs) (\<lambda>words.
             bindE (load_stop_words L) (\<lambda>stop_words.
               let word_counts =
                     (if tech_only then Counter (filter (keep_tech L) words)
                      else Counter (filter (keep_general L stop_words) words))
               in Inr (most_common n word_counts)))))"

definition wrap_unexpected :: "exn \<Rightarrow> exn" where
  "wrap_unexpected e =
     (if isinstance e TypeError \<or> isinstance e ValueError then e
      else Exn ValueError (MSG_unexpected @ exn_str e))"

definition get_top_words :: "text_libs \<Rightarrow> pyval \<Rightarrow> int \<Rightarrow> bool \<Rightarrow> exn + (ustr \<times> nat) list" where
  "get_top_words L texts n tech_only =
     (case top_words_body L texts n tech_only of
        Inl e \<Rightarrow> Inl (wrap_unexpected e)
      | Inr result \<Rightarrow> Inr result)"

text \<open>
  A text that the analysis can use: not null, and \<open>str\<close> of it has a character that is
  not white space.
\<close>

definition usable_text :: "scalar \<Rightarrow> bool" where
  "usable_text x \<longleftrightarrow> pd_notna x \<and> \<not> list_all py_isspace (py_str x)"

text \<open>
  An instance of the libraries for examples: lower case on the ASCII letters, the ASCII
  digits and alphanumerics with every character beyond ASCII taken as a letter, a
  tagger that leaves a text whose words are already separated by blanks as it is, and
  no stop-word corpus.
\<close>

definition ascii_lower :: "ustr \<Rightarrow> ustr" where
  "ascii_lower s = map (\<lambda>c. if 65 \<le> c \<and> c \<le> 90 then c + 32 else c) s"

definition example_libs :: text_libs where
  "example_libs =
     \<lparr>str_lower = ascii_lower,
      uni_isdigit = (\<lambda>c. 48 \<le> c \<and> c \<le> 57),
      uni_isalnum = (\<lambda>c. (48 \<le> c \<and> c \<le> 57) \<or> (65 \<le> c \<and> c \<le> 90) \<or> (97 \<le> c \<and> c \<le> 122)
                          \<or> 128 \<le> c),
      mecab_Tagger = Inr (\<lambda>s. Inr s),
      stopwords_words = Inl (Exn LookupError (asc ''Resource stopwords not found.''))\<rparr>"


section \<open>visualizations.py: the chart builders\<close>

text \<open>
  The library calls of the chart builders, taken as parameters: \<open>repr\<close> of a list of
  strings (for a message), \<open>df.resample("D", on="tweeted_at").size().reset_index()\<close>,
  \<open>px.line\<close> and \<open>fig.update_layout\<close>, \<open>value_counts\<close> and \<open>px.pie\<close>. The type of a
  figure is left open. The expression \<open>pd.errors.ResampleError\<close> of the second handler
  of \<open>create_time_series_plot\<close> is an attribute lookup that Python evaluates when it
  comes to that handler: it gives the class, or raises the \<open>AttributeError\<close> of a
  module that has no such name. The module \<open>pandas.errors\<close> declares no
  \<open>ResampleError\<close>, so with pandas as it is the lookup raises.
\<close>

record 'fig chart_libs =
  repr_list :: "ustr list \<Rightarrow> ustr"
  pd_errors_ResampleError :: "exn + exn_class"
  resample_daily_size :: "dataframe \<Rightarrow> exn + dataframe"
  px_line :: "dataframe \<Rightarrow> exn + 'fig"
  update_layout :: "'fig \<Rightarrow> exn + 'fig"
  value_counts :: "cell list \<Rightarrow> exn + (cell \<times> nat) list"
  px_pie :: "(cell \<times> nat) list \<Rightarrow> exn + 'fig"

definition MSG_not_dataframe :: ustr where
  "MSG_not_dataframe = [20837, 21147, 12399] @ asc ''pandas.DataFrame'' @ [12391, 12354, 12427, 24517, 35201, 12364, 12354, 12426, 12414, 12377]"

definition MSG_missing_columns :: ustr where
  "MSG_missing_columns = [24517, 35201, 12394, 12459, 12521, 12512, 12364, 23384, 22312, 12375, 12414, 12379, 12435] @ asc '': ''"

definition MSG_resample_failed :: ustr where
  "MSG_resample_failed = [26178, 31995, 21015, 12487, 12540, 12479, 12398, 38598, 35336, 12395, 22833, 25943, 12375, 12414, 12375, 12383] @ asc '': ''"

text \<open>
  \<open>validate_dataframe\<close>: a \<open>TypeError\<close> unless the argument is a data frame, a
  \<open>ValueError\<close> if it lacks a required column. The model returns the frame it has
  checked, which the source goes on to use.
\<close>

definition validate_dataframe :: "'fig chart_libs \<Rightarrow> pyval \<Rightarrow> ustr list \<Rightarrow> exn + dataframe" where
  "validate_dataframe C df required_columns =
     (case df of
        PyDataFrame frame \<Rightarrow>
          (let missing_columns = filter (\<lambda>col. col \<notin> set (map fst frame)) required_columns
           in if missing_columns \<noteq> []
              then Inl (Exn ValueError (MSG_missing_columns @ repr_list C missing_columns))
              else Inr frame)
      | _ \<Rightarrow> Inl (Exn TypeError MSG_not_dataframe))"

text \<open>
  \<open>daily_counts.columns = ["date", "count"]\<close>: pandas raises \<open>ValueError\<close> when the number
  of names is not the number of columns.
\<close>

definition set_columns :: "ustr list \<Rightarrow> dataframe \<Rightarrow> exn + dataframe" where
  "set_columns names frame =
     (if length names \<noteq> length frame
      then Inl (Exn ValueError
                 (asc ''Length mismatch: Expected axis has '' @ str_of_int (int (length frame))
                  @ asc '' elements, new values have '' @ str_of_int (int (length names))
                  @ asc '' elements''))
      else Inr (zip names (map snd frame)))"

definition time_series_body :: "'fig chart_libs \<Rightarrow> pyval \<Rightarrow> exn + 'fig" where
  "time_series_body C df =
     bindE (validate_dataframe C df [asc ''tweeted_at'']) (\<lambda>frame.
       bindE (resample_daily_size C frame) (\<lambda>counts.
         bindE (set_columns [asc ''date'', asc ''count''] counts) (\<lambda>daily_counts.
           bindE (px_line C daily_counts) (\<lambda>fig. update_layout C fig))))"

text \<open>
  The handlers of \<open>create_time_series_plot\<close>, in their order: \<open>TypeError\<close> and
  \<open>ValueError\<close> are re-raised; for any other exception the class of the second handler
  is looked up, and an exception of that lookup is the one that leaves the function;
  a \<open>ResampleError\<close> and any other exception become a \<open>ValueError\<close> whose text ends
  with the text of the original.
\<close>

definition time_series_handler :: "'fig chart_libs \<Rightarrow> exn \<Rightarrow> exn" where
  "time_series_handler C e =
     (if isinstance e TypeError \<or> isinstance e ValueError then e
      else (case pd_errors_ResampleError C of
              Inl lookup_error \<Rightarrow> lookup_error
            | Inr resample_error \<Rightarrow>
                if isinstance e resample_error
                then Exn ValueError (MSG_resample_failed @ exn_str e)
                else Exn ValueError (MSG_unexpected @ exn_str e)))"

definition create_time_series_plot :: "'fig chart_libs \<Rightarrow> pyval \<Rightarrow> exn + 'fig" where
  "create_time_series_plot C df =
     (case time_series_body C df of
        Inl e \<Rightarrow> Inl (time_series_handler C e)
      | Inr fig \<Rightarrow> Inr fig)"

definition category_body :: "'fig chart_libs \<Rightarrow> pyval \<Rightarrow> exn + 'fig" where
  "category_body C df =
     bindE (validate_dataframe C df [asc ''category'']) (\<lambda>frame.
       bindE (getitem frame (asc ''category'')) (\<lambda>col.
         bindE (value_counts C col) (\<lambda>category_counts. px_pie C category_counts)))"

definition create_category_plot :: "'fig chart_libs \<Rightarrow> pyval \<Rightarrow> exn + 'fig" where
  "create_category_plot C df =
     (case category_body C df of
        Inl e \<Rightarrow> Inl (wrap_unexpected e)
      | Inr fig \<Rightarrow> Inr fig)"

text \<open>
  An instance for examples: the figure is the table it draws, the lookup of
  \<open>pd.errors.ResampleError\<close> raises the \<open>AttributeError\<close> of pandas, and the
  resampling and the counting of the values fail with a \<open>RuntimeError\<close>.
\<close>

definition MSG_no_ResampleError :: ustr where
  "MSG_no_ResampleError =
     asc ''module '' @ [39] @ asc ''pandas.errors'' @ [39] @ asc '' has no attribute ''
     @ [39] @ asc ''ResampleError'' @ [39]"

definition example_charts :: "dataframe chart_libs" where
  "example_charts =
     \<lparr>repr_list = (\<lambda>names. [91] @ py_join (asc '', '') (map (\<lambda>s. [39] @ s @ [39]) names) @ [93]),
      pd_errors_ResampleError = Inl (Exn AttributeError MSG_no_ResampleError),
      resample_daily_size = (\<lambda>frame. Inl (Exn RuntimeError (asc ''out of memory''))),
      px_line = (\<lambda>frame. Inr frame),
      update_layout = (\<lambda>fig. Inr fig),
      value_counts = (\<lambda>col. Inl (Exn RuntimeError (asc ''out of memory''))),
      px_pie = (\<lambda>counts. Inr [])\<rparr>"

section \<open>Properties of the classifier\<close>

lemma cat_distinct: "CAT_TECH \<noteq> CAT_OTHER"
  by (simp add: CAT_TECH_def CAT_OTHER_def)

text \<open>
  Claim C3. \<open>categorize_tech\<close> returns a category for every argument and never raises:
  the \<open>isinstance\<close> guard keeps \<open>lower\<close> away from every value that has no such method.
  For an argument that is not a string (the null value and numbers included) the
  category is "other"; for a string it is "technology" exactly when one of the
  keywords of \<open>TECH_KEYWORDS\<close> is a substring of the lower-cased text, and "other"
  otherwise. The two categories differ.
\<close>

theorem categorize_tech_total:
  "(\<exists>category. categorize_tech L v = Inr category)
   \<and> (\<not> isinstance_str v \<longrightarrow> categorize_tech L v = Inr CAT_OTHER)
   \<and> (\<forall>s. v = Scalar (PyStr s) \<longrightarrow>
         categorize_tech L v =
           Inr (if \<exists>keyword \<in> set TECH_KEYWORDS. sublist keyword (str_lower L s)
                then CAT_TECH else CAT_OTHER))
   \<and> CAT_TECH \<noteq> CAT_OTHER"
  by (auto simp: categorize_tech_def isinstance_str_def py_lower_def list_ex_iff cat_distinct
           split: pyval.splits scalar.splits)

theorem categorize_tech_total_witness:
  "categorize_tech example_libs
     (Scalar (PyStr (asc ''Python'' @ [12503, 12525, 12464, 12521, 12511, 12531, 12464])))
     = Inr CAT_TECH
   \<and> categorize_tech example_libs (Scalar (PyStr [20170, 26085, 12398, 22825, 27671]))
     = Inr CAT_OTHER
   \<and> categorize_tech example_libs (Scalar PyNone) = Inr CAT_OTHER
   \<and> categorize_tech example_libs (Scalar (PyInt 123)) = Inr CAT_OTHER"
proof -
  let ?tech = "asc ''Python'' @ [12503, 12525, 12464, 12521, 12511, 12531, 12464]"
  let ?other = "[20170, 26085, 12398, 22825, 27671] :: ustr"
  have "sublist (asc ''python'') (str_lower example_libs ?tech)"
    by (simp add: example_libs_def ascii_lower_def asc_def sublist_code)
  moreover have "asc ''python'' \<in> set TECH_KEYWORDS"
    by (simp add: TECH_KEYWORDS_def)
  ultimately have hit:
    "\<exists>keyword \<in> set TECH_KEYWORDS. sublist keyword (str_lower example_libs ?tech)"
    by blast
  have miss:
    "\<not> (\<exists>keyword \<in> set TECH_KEYWORDS. sublist keyword (str_lower example_libs ?other))"
    by (simp add: example_libs_def ascii_lower_def asc_def TECH_KEYWORDS_def sublist_code)
  show ?thesis
    using hit miss
      categorize_tech_total [of example_libs "Scalar (PyStr ?tech)"]
      categorize_tech_total [of example_libs "Scalar (PyStr ?other)"]
      categorize_tech_total [of example_libs "Scalar PyNone"]
      categorize_tech_total [of example_libs "Scalar (PyInt 123)"]
    by (simp add: isinstance_str_def)
qed

section \<open>Properties of the loader\<close>

lemma to_datetime_with_ok:
  assumes "\<And>s c. parse s = Inr c \<Longrightarrow> is_datetime c"
  shows "to_datetime_with parse col = Inr out \<Longrightarrow> length out = length col \<and> list_all is_datetime out"
proof (induction col arbitrary: out)
  case Nil
  then show ?case by simp
next
  case (Cons c cs)
  then obtain d ds where d: "convert_cell parse c = Inr d" and ds: "to_datetime_with parse cs = Inr ds"
    and out: "out = d # ds"
    by (auto simp: bindE_def split: sum.splits)
  from d assms have "is_datetime d"
    by (cases c) (auto simp: is_datetime_def)
  with Cons.IH [OF ds] out show ?case by simp
qed

lemma example_conversion: "datetime_conversion (to_datetime example_csv)"
  unfolding datetime_conversion_def example_csv_def
  by (auto dest!: to_datetime_with_ok [rotated] simp: parse_table_def is_datetime_def split: option.splits)

text \<open>
  Claim C1, as the code has it. Let \<open>pd.to_datetime\<close> return, when it succeeds, a
  date-time column over the rows of its argument. Then every table that \<open>load_data\<close>
  returns has a \<open>tweeted_at\<close> column of date-time type: each record's timestamp is a
  \<open>Timestamp\<close> or the null date-time \<open>NaT\<close>. And whenever the conversion of the column
  that was read fails, \<open>load_data\<close> fails and returns no table; after a header check
  that passed, the failure is the \<open>ValueError\<close> that carries the text of the original.
\<close>

theorem load_data_timestamps:
  assumes "datetime_conversion (to_datetime P)"
  shows "(\<forall>df. snd (load_data P file_path) = Inr df \<longrightarrow>
            (\<exists>col. map_of df (asc ''tweeted_at'') = Some col \<and> list_all is_datetime col))
       \<and> (\<forall>df col e. read_csv P file_path = Inr df \<and> map_of df (asc ''tweeted_at'') = Some col
              \<and> to_datetime P col = Inl e \<longrightarrow>
            (\<exists>e'. snd (load_data P file_path) = Inl e')
            \<and> (check_header P file_path = Inr () \<longrightarrow>
                 snd (load_data P file_path)
                 = Inl (Exn ValueError (MSG_datetime_failed @ exn_str e))))"
proof -
  have success: "\<exists>col. map_of df (asc ''tweeted_at'') = Some col \<and> list_all is_datetime col"
    if ok: "snd (load_data P file_path) = Inr df" for df
  proof -
    from ok obtain df0 where "convert_timestamps P df0 = Inr df"
      by (auto simp: load_data_def split: sum.splits)
    then obtain col out where out: "to_datetime P col = Inr out"
      and df: "df = AList.update (asc ''tweeted_at'') out df0"
      by (auto simp: convert_timestamps_def convert_body_def bindE_def getitem_def
          split: sum.splits option.splits)
    from out assms have "list_all is_datetime out"
      by (auto simp: datetime_conversion_def)
    moreover from df have "map_of df (asc ''tweeted_at'') = Some out"
      by (simp add: update_conv')
    ultimately show ?thesis by blast
  qed
  have failure: "(\<exists>e'. snd (load_data P file_path) = Inl e')
            \<and> (check_header P file_path = Inr () \<longrightarrow>
                 snd (load_data P file_path)
                 = Inl (Exn ValueError (MSG_datetime_failed @ exn_str e)))"
    if a: "read_csv P file_path = Inr df \<and> map_of df (asc ''tweeted_at'') = Some col
              \<and> to_datetime P col = Inl e" for df col e
  proof -
    from a have "convert_timestamps P df = Inl (Exn ValueError (MSG_datetime_failed @ exn_str e))"
      by (simp add: convert_timestamps_def convert_body_def bindE_def getitem_def)
    with a show ?thesis
      by (auto simp: load_data_def split: sum.splits)
  qed
  from success failure show ?thesis by blast
qed

theorem load_data_timestamps_witness:
  "snd (load_data example_csv (asc ''bookmarks.csv'')) =
       Inr [(asc ''tweeted_at'', [Timestamp 1672574400000000000, NaT]),
            (asc ''screen_name'', [Str (asc ''user1''), Str (asc ''user2'')]),
            (asc ''full_text'', [Str (asc ''hello''), Str (asc ''world'')])]
   \<and> (\<exists>col. map_of [(asc ''tweeted_at'', [Timestamp 1672574400000000000, NaT]),
            (asc ''screen_name'', [Str (asc ''user1''), Str (asc ''user2'')]),
            (asc ''full_text'', [Str (asc ''hello''), Str (asc ''world'')])] (asc ''tweeted_at'') = Some col
          \<and> list_all is_datetime col)"
proof -
  have run: "snd (load_data example_csv (asc ''bookmarks.csv'')) =
       Inr [(asc ''tweeted_at'', [Timestamp 1672574400000000000, NaT]),
            (asc ''screen_name'', [Str (asc ''user1''), Str (asc ''user2'')]),
            (asc ''full_text'', [Str (asc ''hello''), Str (asc ''world'')])]"
    by (simp add: load_data_def check_header_def header_body_def bindE_def example_csv_def
        REQUIRED_COLUMNS_def asc_def convert_timestamps_def convert_body_def example_table_def
        getitem_def parse_table_def)
  with load_data_timestamps [OF example_conversion, of "asc ''bookmarks.csv''"]
  show ?thesis by simp
qed

text \<open>
  The claim as the specification words it asks for a timestamp that is not null in
  every record, and for a failure when a timestamp is missing. The code has no check
  for a null timestamp: a row whose \<open>tweeted_at\<close> field is empty is read as \<open>NaN\<close>,
  converted to \<open>NaT\<close>, and returned in a successful load.
\<close>

theorem load_data_null_timestamp_counterexample:
  "snd (load_data example_csv (asc ''bookmarks.csv'')) =
       Inr [(asc ''tweeted_at'', [Timestamp 1672574400000000000, NaT]),
            (asc ''screen_name'', [Str (asc ''user1''), Str (asc ''user2'')]),
            (asc ''full_text'', [Str (asc ''hello''), Str (asc ''world'')])]
   \<and> read_csv example_csv (asc ''bookmarks.csv'') =
       Inr [(asc ''tweeted_at'', [Str (asc ''2023-01-01 12:00:00''), NaN]),
            (asc ''screen_name'', [Str (asc ''user1''), Str (asc ''user2'')]),
            (asc ''full_text'', [Str (asc ''hello''), Str (asc ''world'')])]"
  by (simp add: load_data_def check_header_def header_body_def bindE_def example_csv_def
        REQUIRED_COLUMNS_def asc_def convert_timestamps_def convert_body_def example_table_def
        getitem_def parse_table_def)

text \<open>
  Claim C2. When the header of the resource lacks one of the required columns
  \<open>tweeted_at\<close>, \<open>screen_name\<close> and \<open>full_text\<close>, \<open>load_data\<close> fails with a
  \<open>ParserError\<close> that names the missing columns. Only the header has been read by
  then: the full read is not among the events, and the outcome is the same whatever
  the full read and the conversion would do.
\<close>

theorem load_data_missing_required:
  assumes "read_csv_header P file_path = Inr columns"
    and "\<not> set REQUIRED_COLUMNS \<subseteq> set columns"
  shows "load_data (P\<lparr>read_csv := full_read, to_datetime := conv\<rparr>) file_path =
           ([ReadHeader file_path],
            Inl (Exn ParserError
                  (MSG_missing_required
                   @ py_join (asc '', '') (filter (\<lambda>col. col \<notin> set columns) REQUIRED_COLUMNS))))"
proof -
  from assms(2) have "filter (\<lambda>col. col \<notin> set columns) REQUIRED_COLUMNS \<noteq> []"
    by (auto simp: filter_empty_conv)
  with assms(1) show ?thesis
    by (simp add: load_data_def check_header_def header_body_def bindE_def header_handler_def
        isinstance_def issubclass_def)
qed

theorem load_data_missing_required_witness:
  "load_data (example_csv\<lparr>read_csv_header := (\<lambda>p. Inr [asc ''tweeted_at'', asc ''screen_name''])\<rparr>)
     (asc ''missing_columns.csv'') =
     ([ReadHeader (asc ''missing_columns.csv'')],
      Inl (Exn ParserError (MSG_missing_required @ asc ''full_text'')))"
proof -
  let ?P = "example_csv\<lparr>read_csv_header := (\<lambda>p. Inr [asc ''tweeted_at'', asc ''screen_name''])\<rparr>"
  have h: "read_csv_header ?P (asc ''missing_columns.csv'') = Inr [asc ''tweeted_at'', asc ''screen_name'']"
    by simp
  have m: "\<not> set REQUIRED_COLUMNS \<subseteq> set [asc ''tweeted_at'', asc ''screen_name'']"
    by (simp add: REQUIRED_COLUMNS_def asc_def)
  have f: "filter (\<lambda>col. col \<notin> set [asc ''tweeted_at'', asc ''screen_name'']) REQUIRED_COLUMNS = [asc ''full_text'']"
    by (simp add: REQUIRED_COLUMNS_def asc_def)
  from load_data_missing_required [OF h m, where full_read = "read_csv example_csv"
      and conv = "to_datetime example_csv"] f
  show ?thesis by simp
qed

section \<open>Properties of the frequent words\<close>

lemma py_strip_empty: "py_strip s = [] \<longleftrightarrow> list_all py_isspace s"
proof
  assume "py_strip s = []"
  then have all: "\<forall>x \<in> set (dropWhile py_isspace s). py_isspace x"
    by (simp add: py_strip_def dropWhile_eq_Nil_conv)
  have "dropWhile py_isspace s = []"
  proof (rule ccontr)
    assume ne: "dropWhile py_isspace s \<noteq> []"
    then have "\<not> py_isspace (hd (dropWhile py_isspace s))" by (rule hd_dropWhile)
    moreover from ne have "hd (dropWhile py_isspace s) \<in> set (dropWhile py_isspace s)" by simp
    ultimately show False using all by blast
  qed
  then have "\<forall>x \<in> set s. py_isspace x"
    by (simp only: dropWhile_eq_Nil_conv)
  then show "list_all py_isspace s"
    by (simp only: list_all_iff)
next
  assume "list_all py_isspace s"
  then have "\<forall>x \<in> set s. py_isspace x"
    by (simp only: list_all_iff)
  then have "dropWhile py_isspace s = []"
    by (simp only: dropWhile_eq_Nil_conv)
  then show "py_strip s = []" by (simp add: py_strip_def del: dropWhile_eq_Nil_conv)
qed

lemma py_join_blank:
  "list_all py_isspace sep \<Longrightarrow>
   list_all py_isspace (py_join sep ss) \<longleftrightarrow> (\<forall>s \<in> set ss. list_all py_isspace s)"
  by (induction sep ss rule: py_join.induct) auto

lemma blank_sep: "list_all py_isspace (asc '' '')"
  by (simp add: asc_def py_isspace_def)

lemma join_texts_blank:
  "py_strip (join_texts xs) = [] \<longleftrightarrow> (\<forall>x \<in> set xs. \<not> usable_text x)"
  by (auto simp: py_strip_empty join_texts_def py_join_blank [OF blank_sep] usable_text_def)

lemma wrap_value_error: "wrap_unexpected (Exn ValueError m) = Exn ValueError m"
  by (simp add: wrap_unexpected_def isinstance_def issubclass_def)

lemma wrap_type_error: "wrap_unexpected (Exn TypeError m) = Exn TypeError m"
  by (simp add: wrap_unexpected_def isinstance_def issubclass_def)

text \<open>
  Claim C4. \<open>get_top_words\<close> fails with a \<open>TypeError\<close> for every argument that is
  neither a list nor a Series, with the \<open>ValueError\<close> for empty input for the empty
  list and the empty Series, and with a \<open>ValueError\<close> for every list or Series none of
  whose entries is a usable text, that is, all of whose entries are null or blank.
\<close>

theorem top_words_rejects_input:
  "((\<forall>xs. texts \<noteq> PyList xs \<and> texts \<noteq> PySeries xs) \<longrightarrow>
      get_top_words L texts n tech_only = Inl (Exn TypeError MSG_not_list))
   \<and> (texts = PyList [] \<or> texts = PySeries [] \<longrightarrow>
      get_top_words L texts n tech_only = Inl (Exn ValueError MSG_empty_input))
   \<and> (\<forall>xs. (texts = PyList xs \<or> texts = PySeries xs) \<and> (\<forall>x \<in> set xs. \<not> usable_text x) \<longrightarrow>
      (\<exists>msg. get_top_words L texts n tech_only = Inl (Exn ValueError msg)))"
proof -
  have a: "get_top_words L texts n tech_only = Inl (Exn TypeError MSG_not_list)"
    if "\<forall>xs. texts \<noteq> PyList xs \<and> texts \<noteq> PySeries xs"
    using that
    by (cases texts)
      (simp_all add: get_top_words_def top_words_body_def validate_input_def bindE_def
        wrap_type_error)
  have b: "get_top_words L texts n tech_only = Inl (Exn ValueError MSG_empty_input)"
    if "texts = PyList [] \<or> texts = PySeries []"
    using that
    by (auto simp: get_top_words_def top_words_body_def validate_input_def bindE_def
        wrap_value_error)
  have c: "\<exists>msg. get_top_words L texts n tech_only = Inl (Exn ValueError msg)"
    if "(texts = PyList xs \<or> texts = PySeries xs) \<and> (\<forall>x \<in> set xs. \<not> usable_text x)" for xs
  proof (cases "xs = []")
    case True
    with that b show ?thesis by blast
  next
    case False
    from that have "py_strip (join_texts xs) = []" by (simp add: join_texts_blank)
    with that False show ?thesis
      by (auto simp: get_top_words_def top_words_body_def validate_input_def bindE_def
          wrap_value_error)
  qed
  from a b c show ?thesis by blast
qed

theorem top_words_rejects_input_witness:
  "get_top_words example_libs (Scalar (PyInt 123)) 50 False = Inl (Exn TypeError MSG_not_list)
   \<and> get_top_words example_libs (PyList []) 50 False = Inl (Exn ValueError MSG_empty_input)
   \<and> (\<exists>msg. get_top_words example_libs (PySeries [PyNaN, PyStr (asc ''  ''), PyNone]) 50 False
              = Inl (Exn ValueError msg))"
proof -
  have "\<forall>x \<in> set [PyNaN, PyStr (asc ''  ''), PyNone]. \<not> usable_text x"
    by (simp add: usable_text_def pd_notna_def asc_def py_isspace_def)
  with top_words_rejects_input [of "Scalar (PyInt 123)" example_libs 50 False]
    top_words_rejects_input [of "PyList []" example_libs 50 False]
    top_words_rejects_input [of "PySeries [PyNaN, PyStr (asc ''  ''), PyNone]" example_libs 50 False]
  show ?thesis by simp
qed

subsection \<open>The counter and the ranking\<close>

lemma map_of_count_word:
  "map_of (count_word counts a) w =
     (if w = a then Some (case map_of counts a of None \<Rightarrow> 1 | Some k \<Rightarrow> k + 1)
      else map_of counts w)"
  by (simp add: count_word_def update_conv')

lemma distinct_count_word:
  "distinct (map fst counts) \<Longrightarrow> distinct (map fst (count_word counts a))"
  by (simp add: count_word_def distinct_update)

lemma keys_count_word: "fst ` set (count_word counts a) = insert a (fst ` set counts)"
  by (simp add: count_word_def dom_update)

lemma foldl_count_word:
  "distinct (map fst counts) \<Longrightarrow>
   distinct (map fst (foldl count_word counts ws))
   \<and> fst ` set (foldl count_word counts ws) = fst ` set counts \<union> set ws
   \<and> (\<forall>w. (case map_of (foldl count_word counts ws) w of None \<Rightarrow> 0 | Some k \<Rightarrow> k)
          = (case map_of counts w of None \<Rightarrow> 0 | Some k \<Rightarrow> k) + count_list ws w)"
proof (induction ws arbitrary: counts)
  case Nil
  then show ?case by simp
next
  case (Cons a ws)
  from Cons.prems have d: "distinct (map fst (count_word counts a))"
    by (rule distinct_count_word)
  from Cons.IH [OF d] show ?case
    by (auto simp: keys_count_word map_of_count_word split: option.splits)
qed

lemma Counter_distinct: "distinct (map fst (Counter ws))"
  using foldl_count_word [of "[]" ws] by (simp add: Counter_def)

lemma Counter_keys: "fst ` set (Counter ws) = set ws"
  using foldl_count_word [of "[]" ws] by (simp add: Counter_def)

lemma Counter_entry: "(w, k) \<in> set (Counter ws) \<longleftrightarrow> w \<in> set ws \<and> k = count_list ws w"
proof -
  have get: "(case map_of (Counter ws) w of None \<Rightarrow> 0 | Some k \<Rightarrow> k) = count_list ws w"
    using foldl_count_word [of "[]" ws] by (simp add: Counter_def)
  have mem: "(w, k) \<in> set (Counter ws) \<longleftrightarrow> map_of (Counter ws) w = Some k"
    using Counter_distinct [of ws] by simp
  show ?thesis
  proof (cases "w \<in> set ws")
    case True
    then have "w \<in> fst ` set (Counter ws)" by (simp add: Counter_keys)
    then obtain k' where k': "map_of (Counter ws) w = Some k'"
      by (metis domD dom_map_of_conv_image_fst)
    with get have "k' = count_list ws w" by simp
    with k' mem True show ?thesis by auto
  next
    case False
    then have "w \<notin> fst ` set (Counter ws)" by (simp add: Counter_keys)
    then have "(w, k) \<notin> set (Counter ws)" by force
    with False show ?thesis by simp
  qed
qed

lemma Counter_length: "length (Counter ws) = card (set ws)"
proof -
  have "length (Counter ws) = length (map fst (Counter ws))" by simp
  also have "\<dots> = card (set (map fst (Counter ws)))"
    using Counter_distinct [of ws] by (simp only: distinct_card)
  also have "\<dots> = card (set ws)" by (simp add: Counter_keys)
  finally show ?thesis .
qed

lemma most_common_subset: "set (most_common n counts) \<subseteq> set counts"
  using set_take_subset [of "nat n" "sort_key (\<lambda>item. - int (snd item)) counts"]
  by (simp add: most_common_def)

lemma most_common_length: "length (most_common n counts) \<le> nat n"
  by (simp add: most_common_def)

lemma most_common_all:
  "int (length counts) \<le> n \<Longrightarrow> set (most_common n counts) = set counts"
  by (simp add: most_common_def)

lemma most_common_sorted: "sorted_wrt (\<lambda>a b. snd b \<le> snd a) (most_common n counts)"
proof -
  let ?f = "\<lambda>item :: ustr \<times> nat. - int (snd item)"
  have "sorted (map ?f (sort_key ?f counts))" by (rule sorted_sort_key)
  then have "sorted (take (nat n) (map ?f (sort_key ?f counts)))" by (rule sorted_wrt_take)
  then have "sorted (map ?f (most_common n counts))"
    by (simp add: most_common_def take_map)
  then have "sorted_wrt (\<lambda>a b. ?f a \<le> ?f b) (most_common n counts)"
    by (simp only: sorted_map)
  then show ?thesis
    by (rule sorted_wrt_mono_rel [rotated]) simp
qed

lemma most_common_distinct:
  assumes "distinct (map fst counts)"
  shows "distinct (map fst (most_common n counts))"
proof -
  let ?s = "sort_key (\<lambda>item. - int (snd item)) counts"
  from assms have "distinct counts" and "inj_on fst (set counts)"
    by (simp_all add: distinct_map)
  then have "distinct (map fst ?s)" by (simp add: distinct_map)
  then have "distinct (take (nat n) (map fst ?s))" by (rule distinct_take)
  then show ?thesis by (simp add: most_common_def take_map)
qed

lemma count_list_filter:
  "count_list (filter P ws) w = (if P w then count_list ws w else 0)"
  by (induction ws) auto

subsection \<open>The body of the analysis\<close>

text \<open>What a successful run of the body has computed.\<close>

lemma top_words_body_Inr:
  assumes "top_words_body L texts n tech_only = Inr r"
  obtains xs parse words stop_words where
    "validate_input texts = Inr xs"
    "py_strip (join_texts xs) \<noteq> []"
    "mecab_Tagger L = Inr parse"
    "collect_words L parse xs = Inr words"
    "load_stop_words L = Inr stop_words"
    "r = most_common n (Counter (filter (if tech_only then keep_tech L
                                         else keep_general L stop_words) words))"
  using assms
  by (auto simp: top_words_body_def bindE_def Let_def split: sum.splits if_splits)

lemma get_top_words_Inr:
  "get_top_words L texts n tech_only = Inr r \<longleftrightarrow> top_words_body L texts n tech_only = Inr r"
  by (simp add: get_top_words_def split: sum.splits)

text \<open>The stop-word call has no part in the tokens or in the tests on a word.\<close>

lemma collect_words_stopwords:
  "collect_words (L\<lparr>stopwords_words := sw\<rparr>) parse xs = collect_words L parse xs"
proof -
  have "preprocess_text (L\<lparr>stopwords_words := sw\<rparr>) = preprocess_text L"
    by (rule ext) (simp add: preprocess_text_def is_word_char_def)
  then show ?thesis by (induction xs) simp_all
qed

lemma keep_tech_stopwords: "keep_tech (L\<lparr>stopwords_words := sw\<rparr>) = keep_tech L"
  by (rule ext) (simp add: keep_tech_def py_isdigit_def)


lemma PYTHON_not_tech_word: "asc ''PYTHON'' \<notin> set tech_words"
  by (simp add: asc_def tech_words_def)

text \<open>The definitions that a run on a concrete input unfolds.\<close>

lemmas eval_defs = get_top_words_def top_words_body_def validate_input_def bindE_def join_texts_def
  py_strip_def pd_notna_def asc_def py_isspace_def example_libs_def preprocess_text_def
  match_url_def strip_prefix_def match_nonspace_run_def is_word_char_def py_split_def
  load_stop_words_def isinstance_def issubclass_def keep_tech_def keep_general_def py_isdigit_def
  all_ascii_def Counter_def count_word_def most_common_def ascii_lower_def Let_def

text \<open>
  Claim C6. For every input on which \<open>get_top_words\<close> succeeds with a limit \<open>n\<close> that is
  not negative, the result has at most \<open>n\<close> entries, every count is at least 1, the
  entries are in the order of descending count, and no word has two entries.
\<close>

theorem top_words_bounded_sorted:
  assumes "get_top_words L texts n tech_only = Inr result" and "0 \<le> n"
  shows "int (length result) \<le> n
       \<and> (\<forall>(w, k) \<in> set result. 1 \<le> k)
       \<and> sorted_wrt (\<lambda>a b. snd b \<le> snd a) result
       \<and> distinct (map fst result)"
proof -
  from assms(1) have "top_words_body L texts n tech_only = Inr result"
    by (simp add: get_top_words_Inr)
  then obtain kept where r: "result = most_common n (Counter kept)"
    by (rule top_words_body_Inr)
  have "length result \<le> nat n" by (simp add: r most_common_length)
  with assms(2) have len: "int (length result) \<le> n" by linarith
  have pos: "1 \<le> k" if "(w, k) \<in> set result" for w k
  proof -
    from that r most_common_subset have "(w, k) \<in> set (Counter kept)" by blast
    then have "w \<in> set kept" and "k = count_list kept w"
      by (simp_all add: Counter_entry)
    then show ?thesis using count_list_0_iff [of kept w] by linarith
  qed
  from len pos show ?thesis
    by (auto simp: r most_common_sorted most_common_distinct Counter_distinct)
qed

theorem top_words_bounded_sorted_witness:
  "get_top_words example_libs
     (PyList [PyStr (asc ''Python '' @ [27231, 26800, 23398, 32722] @ asc '' Docker''), PyNone,
              PyStr ([27231, 26800, 23398, 32722] @ asc '' 12 Python '' @ [12398])]) 2 True
     = Inr [(asc ''Python'', 2), ([27231, 26800, 23398, 32722], 2)]
   \<and> (0::int) \<le> 2
   \<and> int (length [(asc ''Python'', 2::nat), ([27231, 26800, 23398, 32722], 2)]) \<le> 2
   \<and> 1 \<le> snd (asc ''Python'', 2::nat) \<and> 1 \<le> snd ([27231, 26800, 23398, 32722] :: ustr, 2::nat)
   \<and> sorted_wrt (\<lambda>a b. snd b \<le> snd a)
        [(asc ''Python'', 2::nat), ([27231, 26800, 23398, 32722], 2)]
   \<and> distinct (map fst [(asc ''Python'', 2::nat), ([27231, 26800, 23398, 32722], 2)])"
proof -
  have run: "get_top_words example_libs
     (PyList [PyStr (asc ''Python '' @ [27231, 26800, 23398, 32722] @ asc '' Docker''), PyNone,
              PyStr ([27231, 26800, 23398, 32722] @ asc '' 12 Python '' @ [12398])]) 2 True
     = Inr [(asc ''Python'', 2), ([27231, 26800, 23398, 32722], 2)]"
    by (simp add: eval_defs tech_words_def)
  have n: "(0::int) \<le> 2" by simp
  from top_words_bounded_sorted [OF run n] run n show ?thesis by simp
qed

text \<open>
  Claim C5. In the mode that is not restricted to technology words, every entry of the
  result is a token whose lower-cased form is not a stop word, that is longer than one
  character, that is not made of digits only (\<open>str.isdigit\<close>) and that has a character
  outside ASCII, with the number of its occurrences among the tokens; a token that
  fails one of the four tests has no entry; and when the limit does not cut the list,
  every token that passes them has its entry.
\<close>

theorem top_words_general_filter:
  assumes "get_top_words L texts n False = Inr result"
  shows "\<exists>xs parse words stop_words.
           validate_input texts = Inr xs \<and> mecab_Tagger L = Inr parse
         \<and> collect_words L parse xs = Inr words \<and> load_stop_words L = Inr stop_words
         \<and> (\<forall>(w, k) \<in> set result.
               w \<in> set words \<and> k = count_list words w
             \<and> str_lower L w \<notin> set stop_words \<and> 1 < length w \<and> \<not> py_isdigit L w
             \<and> (\<exists>c \<in> set w. 128 \<le> c))
         \<and> (\<forall>w \<in> set words.
               str_lower L w \<in> set stop_words \<or> length w \<le> 1 \<or> py_isdigit L w
               \<or> (\<forall>c \<in> set w. c < 128) \<longrightarrow> w \<notin> fst ` set result)
         \<and> (int (card {w \<in> set words. keep_general L stop_words w}) \<le> n \<longrightarrow>
               (\<forall>w \<in> set words.
                  str_lower L w \<notin> set stop_words \<and> 1 < length w \<and> \<not> py_isdigit L w
                  \<and> (\<exists>c \<in> set w. 128 \<le> c) \<longrightarrow> (w, count_list words w) \<in> set result))"
proof -
  from assms have "top_words_body L texts n False = Inr result"
    by (simp add: get_top_words_Inr)
  then obtain xs parse words stop_words where
    v: "validate_input texts = Inr xs" and t: "mecab_Tagger L = Inr parse"
    and c: "collect_words L parse xs = Inr words" and s: "load_stop_words L = Inr stop_words"
    and r: "result = most_common n (Counter (filter (keep_general L stop_words) words))"
    by (rule top_words_body_Inr) simp
  let ?kept = "filter (keep_general L stop_words) words"
  have keep: "keep_general L stop_words w \<longleftrightarrow>
      str_lower L w \<notin> set stop_words \<and> 1 < length w \<and> \<not> py_isdigit L w \<and> (\<exists>c \<in> set w. 128 \<le> c)"
    for w
    by (auto simp: keep_general_def all_ascii_def list_all_iff not_less)
  have entry: "(w, k) \<in> set (Counter ?kept) \<longleftrightarrow>
      w \<in> set words \<and> keep_general L stop_words w \<and> k = count_list words w" for w k
    by (auto simp: Counter_entry count_list_filter)
  have a: "w \<in> set words \<and> k = count_list words w
             \<and> str_lower L w \<notin> set stop_words \<and> 1 < length w \<and> \<not> py_isdigit L w
             \<and> (\<exists>c \<in> set w. 128 \<le> c)" if "(w, k) \<in> set result" for w k
  proof -
    from that r most_common_subset have "(w, k) \<in> set (Counter ?kept)" by blast
    then show ?thesis by (simp add: entry keep)
  qed
  have b: "w \<notin> fst ` set result"
    if "str_lower L w \<in> set stop_words \<or> length w \<le> 1 \<or> py_isdigit L w \<or> (\<forall>c \<in> set w. c < 128)"
    for w
  proof
    assume "w \<in> fst ` set result"
    then obtain k where "(w, k) \<in> set result" by force
    from a [OF this] that show False by (auto simp: not_less)
  qed
  have d: "(w, count_list words w) \<in> set result"
    if small: "int (card {w \<in> set words. keep_general L stop_words w}) \<le> n"
      and w: "w \<in> set words" "str_lower L w \<notin> set stop_words \<and> 1 < length w \<and> \<not> py_isdigit L w
                  \<and> (\<exists>c \<in> set w. 128 \<le> c)" for w
  proof -
    have "length (Counter ?kept) = card {w \<in> set words. keep_general L stop_words w}"
      by (simp add: Counter_length)
    with small have "set result = set (Counter ?kept)"
      by (simp add: r most_common_all)
    with w show ?thesis by (simp add: entry keep)
  qed
  from v t c s a b d show ?thesis by blast
qed

theorem top_words_general_filter_witness:
  "get_top_words example_libs
     (PyList [PyStr (asc ''Python '' @ [27231, 26800, 23398, 32722] @ asc '' Docker''), PyNone,
              PyStr ([27231, 26800, 23398, 32722] @ asc '' 12 Python '' @ [12398])]) 50 False
     = Inr [([27231, 26800, 23398, 32722], 2)]
   \<and> (\<exists>(words :: ustr list) stop_words.
         [27231, 26800, 23398, 32722] \<in> set words
       \<and> 2 = count_list words [27231, 26800, 23398, 32722]
       \<and> str_lower example_libs [27231, 26800, 23398, 32722] \<notin> set stop_words
       \<and> 1 < length [27231, 26800, 23398, 32722 :: nat]
       \<and> \<not> py_isdigit example_libs [27231, 26800, 23398, 32722])"
proof -
  have run: "get_top_words example_libs
     (PyList [PyStr (asc ''Python '' @ [27231, 26800, 23398, 32722] @ asc '' Docker''), PyNone,
              PyStr ([27231, 26800, 23398, 32722] @ asc '' 12 Python '' @ [12398])]) 50 False
     = Inr [([27231, 26800, 23398, 32722], 2)]"
    by (simp add: eval_defs supplement_def)
  from top_words_general_filter [OF run] obtain words stop_words where
    "\<forall>(w, k) \<in> set [([27231, 26800, 23398, 32722] :: ustr, 2 :: nat)].
             w \<in> set words \<and> k = count_list words w
           \<and> str_lower example_libs w \<notin> set stop_words \<and> 1 < length w
           \<and> \<not> py_isdigit example_libs w \<and> (\<exists>c \<in> set w. 128 \<le> c)"
    by blast
  then have "([27231, 26800, 23398, 32722] :: ustr) \<in> set words
       \<and> 2 = count_list words [27231, 26800, 23398, 32722]
       \<and> str_lower example_libs [27231, 26800, 23398, 32722] \<notin> set stop_words
       \<and> 1 < length [27231, 26800, 23398, 32722 :: nat]
       \<and> \<not> py_isdigit example_libs [27231, 26800, 23398, 32722]"
    by simp
  with run show ?thesis by blast
qed

text \<open>
  Claim C9. When the input has a usable text (not null and not blank) and the tagger
  and the stop words are available, but the filter of the chosen mode removes every
  token, \<open>get_top_words\<close> returns the empty mapping and does not raise: the test for
  usable text looks at the joined raw texts, before the tokens exist.
\<close>

theorem top_words_all_filtered:
  assumes "validate_input texts = Inr xs"
    and "\<exists>x \<in> set xs. usable_text x"
    and "mecab_Tagger L = Inr parse"
    and "collect_words L parse xs = Inr words"
    and "load_stop_words L = Inr stop_words"
    and "\<forall>w \<in> set words. \<not> (if tech_only then keep_tech L w else keep_general L stop_words w)"
  shows "get_top_words L texts n tech_only = Inr []"
proof -
  from assms(2) have nonblank: "py_strip (join_texts xs) \<noteq> []"
    by (simp add: join_texts_blank)
  from assms(6) have "filter (if tech_only then keep_tech L else keep_general L stop_words) words = []"
    by (auto simp: filter_empty_conv)
  then have "Counter (if tech_only then filter (keep_tech L) words
                      else filter (keep_general L stop_words) words) = []"
    by (auto simp: Counter_def split: if_splits)
  with assms(1,3,4,5) nonblank show ?thesis
    by (auto simp: get_top_words_def top_words_body_def bindE_def most_common_def Counter_def)
qed

theorem top_words_all_filtered_witness:
  "validate_input (PyList [PyStr (asc ''hello world 42 a'')]) = Inr [PyStr (asc ''hello world 42 a'')]
   \<and> usable_text (PyStr (asc ''hello world 42 a''))
   \<and> collect_words example_libs (\<lambda>s. Inr s) [PyStr (asc ''hello world 42 a'')]
        = Inr [asc ''hello'', asc ''world'', asc ''42'', asc ''a'']
   \<and> get_top_words example_libs (PyList [PyStr (asc ''hello world 42 a'')]) 50 False = Inr []"
proof -
  let ?xs = "[PyStr (asc ''hello world 42 a'')]"
  let ?words = "[asc ''hello'', asc ''world'', asc ''42'', asc ''a'']"
  have v: "validate_input (PyList ?xs) = Inr ?xs" by (simp add: validate_input_def)
  have u: "\<exists>x \<in> set ?xs. usable_text x"
    by (simp add: usable_text_def pd_notna_def asc_def py_isspace_def)
  have t: "mecab_Tagger example_libs = Inr (\<lambda>s. Inr s)" by (simp add: example_libs_def)
  have c: "collect_words example_libs (\<lambda>s. Inr s) ?xs = Inr ?words"
    by (simp add: eval_defs)
  have s: "load_stop_words example_libs = Inr supplement"
    by (simp add: load_stop_words_def example_libs_def isinstance_def issubclass_def)
  have f: "\<forall>w \<in> set ?words. \<not> (if False then keep_tech example_libs w
                                   else keep_general example_libs supplement w)"
    by (simp add: keep_general_def all_ascii_def asc_def)
  from u have u': "usable_text (PyStr (asc ''hello world 42 a''))" by simp
  from top_words_all_filtered [OF v u t c s f, of 50] v u' c show ?thesis by blast
qed




text \<open>
  Claim C10. In the mode restricted to technology words the outcome does not depend on
  the stop words; every entry of the result is a token that is, as it is written, a
  member of \<open>tech_words\<close>, with the number of its occurrences, so that \<open>PYTHON\<close>, which
  the set holds in no such casing, never has an entry. The classifier, which matches
  on the lower-cased text, does find \<open>PYTHON\<close>.
\<close>

theorem top_words_tech_only:
  "get_top_words (L\<lparr>stopwords_words := Inr stop1\<rparr>) texts n True
     = get_top_words (L\<lparr>stopwords_words := Inr stop2\<rparr>) texts n True
   \<and> (\<forall>result. get_top_words L texts n True = Inr result \<longrightarrow>
         (\<exists>xs parse words. validate_input texts = Inr xs \<and> mecab_Tagger L = Inr parse
            \<and> collect_words L parse xs = Inr words
            \<and> (\<forall>(w, k) \<in> set result.
                  w \<in> set tech_words \<and> w \<in> set words \<and> k = count_list words w))
         \<and> asc ''PYTHON'' \<notin> fst ` set result)
   \<and> (str_lower L (asc ''PYTHON'') = asc ''python'' \<longrightarrow>
         categorize_tech L (Scalar (PyStr (asc ''PYTHON''))) = Inr CAT_TECH)"
proof -
  have body: "top_words_body (L\<lparr>stopwords_words := Inr sw\<rparr>) texts n True
      = bindE (validate_input texts) (\<lambda>xs.
          if py_strip (join_texts xs) = [] then Inl (Exn ValueError MSG_no_valid_text)
          else bindE (mecab_Tagger L) (\<lambda>parse.
                 bindE (collect_words L parse xs) (\<lambda>words.
                   Inr (most_common n (Counter (filter (keep_tech L) words))))))" for sw
  proof -
    have s: "load_stop_words (L\<lparr>stopwords_words := Inr sw\<rparr>) = Inr (sw @ supplement)"
      by (simp add: load_stop_words_def)
    have mt: "mecab_Tagger (L\<lparr>stopwords_words := Inr sw\<rparr>) = mecab_Tagger L" by simp
    have b: "bindE (Inr (sw @ supplement)) f = f (sw @ supplement)"
      for f :: "ustr list \<Rightarrow> exn + (ustr \<times> nat) list"
      by (simp add: bindE_def)
    show ?thesis
      unfolding top_words_body_def
      by (simp only: s mt collect_words_stopwords keep_tech_stopwords b Let_def if_True)
  qed
  have indep: "get_top_words (L\<lparr>stopwords_words := Inr stop1\<rparr>) texts n True
     = get_top_words (L\<lparr>stopwords_words := Inr stop2\<rparr>) texts n True"
    by (simp only: get_top_words_def body)
  have member: "(\<exists>xs parse words. validate_input texts = Inr xs \<and> mecab_Tagger L = Inr parse
            \<and> collect_words L parse xs = Inr words
            \<and> (\<forall>(w, k) \<in> set result.
                  w \<in> set tech_words \<and> w \<in> set words \<and> k = count_list words w))
         \<and> asc ''PYTHON'' \<notin> fst ` set result"
    if "get_top_words L texts n True = Inr result" for result
  proof -
    from that have "top_words_body L texts n True = Inr result"
      by (simp add: get_top_words_Inr)
    then obtain xs parse words where
      v: "validate_input texts = Inr xs" and t: "mecab_Tagger L = Inr parse"
      and c: "collect_words L parse xs = Inr words"
      and r: "result = most_common n (Counter (filter (keep_tech L) words))"
      by (rule top_words_body_Inr) simp
    have e: "w \<in> set tech_words \<and> w \<in> set words \<and> k = count_list words w"
      if "(w, k) \<in> set result" for w k
    proof -
      from that r most_common_subset
      have "(w, k) \<in> set (Counter (filter (keep_tech L) words))" by blast
      then show ?thesis
        by (auto simp: Counter_entry count_list_filter keep_tech_def)
    qed
    then have "asc ''PYTHON'' \<notin> fst ` set result"
      using PYTHON_not_tech_word by force
    with v t c e show ?thesis by blast
  qed
  have classifier: "categorize_tech L (Scalar (PyStr (asc ''PYTHON''))) = Inr CAT_TECH"
    if "str_lower L (asc ''PYTHON'') = asc ''python''"
  proof -
    have "asc ''python'' \<in> set TECH_KEYWORDS" by (simp add: TECH_KEYWORDS_def)
    then have "list_ex (\<lambda>keyword. sublist keyword (asc ''python'')) TECH_KEYWORDS"
      unfolding list_ex_iff by (rule bexI [rotated]) simp
    with that show ?thesis
      by (simp add: categorize_tech_def isinstance_str_def py_lower_def)
  qed
  from indep member classifier show ?thesis by blast
qed

theorem top_words_tech_only_witness:
  "get_top_words example_libs (PyList [PyStr (asc ''PYTHON Python python'')]) 50 True
     = Inr [(asc ''Python'', 1), (asc ''python'', 1)]
   \<and> asc ''PYTHON'' \<notin> fst ` set [(asc ''Python'', 1::nat), (asc ''python'', 1)]
   \<and> str_lower example_libs (asc ''PYTHON'') = asc ''python''
   \<and> categorize_tech example_libs (Scalar (PyStr (asc ''PYTHON''))) = Inr CAT_TECH"
proof -
  have run: "get_top_words example_libs (PyList [PyStr (asc ''PYTHON Python python'')]) 50 True
     = Inr [(asc ''Python'', 1), (asc ''python'', 1)]"
    by (simp add: eval_defs tech_words_def)
  have low: "str_lower example_libs (asc ''PYTHON'') = asc ''python''"
    by (simp add: example_libs_def ascii_lower_def asc_def)
  from top_words_tech_only [where L = example_libs
      and texts = "PyList [PyStr (asc ''PYTHON Python python'')]" and n = 50]
    run low
  show ?thesis by blast
qed

section \<open>Properties of the chart builders\<close>

text \<open>
  The handlers of \<open>create_category_plot\<close> do what the specification says of both
  builders: whatever exception the body raises, the builder raises too; a \<open>TypeError\<close>
  or a \<open>ValueError\<close> is the one raised, and any other exception is raised as a
  \<open>ValueError\<close> whose text ends with the text of the original.
\<close>

lemma category_failures_wrapped:
  assumes "category_body C df = Inl e"
  shows "(\<exists>e'. create_category_plot C df = Inl e')
       \<and> (isinstance e TypeError \<or> isinstance e ValueError \<longrightarrow>
            create_category_plot C df = Inl e)
       \<and> (\<not> isinstance e TypeError \<and> \<not> isinstance e ValueError \<longrightarrow>
            create_category_plot C df = Inl (Exn ValueError (MSG_unexpected @ exn_str e)))"
  using assms by (simp add: create_category_plot_def wrap_unexpected_def)

text \<open>
  In \<open>create_time_series_plot\<close> the handler for \<open>pd.errors.ResampleError\<close> stands before
  the handler for \<open>Exception\<close>. Where the lookup of that name raises, its exception
  leaves the function, and the last handler is never reached.
\<close>

lemma time_series_lookup_raises:
  assumes "time_series_body C df = Inl e"
    and "\<not> isinstance e TypeError" and "\<not> isinstance e ValueError"
    and "pd_errors_ResampleError C = Inl lookup_error"
  shows "create_time_series_plot C df = Inl lookup_error"
  using assms by (simp add: create_time_series_plot_def time_series_handler_def)

text \<open>
  Claim C8 does not hold of \<open>create_time_series_plot\<close>. On a frame with a
  \<open>tweeted_at\<close> column whose resampling fails with a \<open>RuntimeError\<close>, an exception that
  is neither a \<open>TypeError\<close> nor a \<open>ValueError\<close>, the builder raises the
  \<open>AttributeError\<close> of the lookup of \<open>pd.errors.ResampleError\<close>: not a \<open>ValueError\<close>, and
  without the text of the original. \<open>create_category_plot\<close>, which has no such
  handler, wraps the same failure as the claim says.
\<close>

theorem time_series_unexpected_failure:
  "time_series_body example_charts (PyDataFrame example_table)
     = Inl (Exn RuntimeError (asc ''out of memory''))
   \<and> \<not> isinstance (Exn RuntimeError (asc ''out of memory'')) TypeError
   \<and> \<not> isinstance (Exn RuntimeError (asc ''out of memory'')) ValueError
   \<and> create_time_series_plot example_charts (PyDataFrame example_table)
     = Inl (Exn AttributeError MSG_no_ResampleError)
   \<and> \<not> isinstance (Exn AttributeError MSG_no_ResampleError) ValueError
   \<and> \<not> sublist (asc ''out of memory'') MSG_no_ResampleError
   \<and> create_category_plot example_charts (PyDataFrame [(asc ''category'', [Str CAT_TECH])])
     = Inl (Exn ValueError (MSG_unexpected @ asc ''out of memory''))"
proof -
  have body: "time_series_body example_charts (PyDataFrame example_table)
     = Inl (Exn RuntimeError (asc ''out of memory''))"
    by (simp add: time_series_body_def validate_dataframe_def example_table_def bindE_def
        example_charts_def asc_def)
  have classes: "\<not> isinstance (Exn RuntimeError m) TypeError
      \<and> \<not> isinstance (Exn RuntimeError m) ValueError
      \<and> \<not> isinstance (Exn AttributeError m) ValueError" for m
    by (simp add: isinstance_def issubclass_def)
  have lookup: "pd_errors_ResampleError example_charts = Inl (Exn AttributeError MSG_no_ResampleError)"
    by (simp add: example_charts_def)
  from body classes lookup
  have plot: "create_time_series_plot example_charts (PyDataFrame example_table)
     = Inl (Exn AttributeError MSG_no_ResampleError)"
    by (simp add: create_time_series_plot_def time_series_handler_def)
  have foreign: "\<not> sublist (asc ''out of memory'') MSG_no_ResampleError"
    by (simp add: MSG_no_ResampleError_def asc_def sublist_code)
  have pie: "category_body example_charts (PyDataFrame [(asc ''category'', [Str CAT_TECH])])
     = Inl (Exn RuntimeError (asc ''out of memory''))"
    by (simp add: category_body_def validate_dataframe_def bindE_def example_charts_def getitem_def)
  from category_failures_wrapped [OF pie] classes
  have "create_category_plot example_charts (PyDataFrame [(asc ''category'', [Str CAT_TECH])])
     = Inl (Exn ValueError (MSG_unexpected @ asc ''out of memory''))"
    by simp
  with body classes plot foreign show ?thesis by blast
qed

end
